theory Spec2Isabelle
  imports Main
begin

section \<open>The plugin skeleton of pkg/skel/skel.go\<close>

text \<open>
  The Go package \<open>skel\<close> reads the invocation parameters of a CNI plugin from the
  environment and the network configuration from standard input, validates them,
  reconciles the configuration's version with the versions the plugin supports and
  calls the handler of the requested command. Every failure is a \<open>*types.Error\<close>.

  Byte slices and Go strings are both lists of bytes here; a Go \<open>nil\<close> error or
  \<open>nil\<close> pointer is \<open>None\<close>.
\<close>

type_synonym bytes = string

subsection \<open>Package types: the error value\<close>

text \<open>
  Modelled from the spec: package \<open>types\<close> (the error codes, the struct \<open>Error\<close> and
  its constructor \<open>NewError\<close>) is imported by skel.go and is not among the sources.
  The spec (sections 3 and 4.1) gives a closed set of kinds with pairwise distinct codes
  and a value of three fields, code, message and detail; the kinds carry the names under
  which skel.go uses them. skel.go itself fixes the argument order of \<open>NewError\<close>: it
  passes \<open>verErr.Details()\<close> in third place and its messages in second place.
\<close>

datatype ErrorKind =
    ErrMissingEnvironmentVariables
  | ErrFailedIO
  | ErrFailedDecode
  | ErrFailedEncode
  | ErrInvalidNetworkConfig
  | ErrIncompatibleCNIVersion
  | ErrUnknownCommand
  | ErrFailedPluginCall
  | ErrInternal

record Error =
  Code :: ErrorKind
  Msg :: string
  Details :: string

definition NewError :: "ErrorKind \<Rightarrow> string \<Rightarrow> string \<Rightarrow> Error" where
  "NewError code msg details = \<lparr>Code = code, Msg = msg, Details = details\<rparr>"

text \<open>
  A value of Go's interface type \<open>error\<close>, as a handler returns it when it is not the
  \<open>nil\<close> interface: either a \<open>*types.Error\<close> (a pointer, which may itself be \<open>nil\<close>)
  or a value of any other type, of which only the text of \<open>Error()\<close> is used.
\<close>

datatype go_error = TypedError "Error option" | OtherError string

subsection \<open>Streams\<close>

text \<open>
  An \<open>io.Reader\<close> holds the bytes still to be read and the error, if any, that reading
  it runs into. \<open>ioutil.ReadAll\<close> returns all the bytes or that error, and leaves the
  reader drained. \<open>bytes.NewReader\<close> never fails.
\<close>

datatype reader = Reader (pending: bytes) (failure: "string option")

definition NewReader :: "bytes \<Rightarrow> reader" where
  "NewReader b = Reader b None"

definition ReadAll :: "reader \<Rightarrow> (string + bytes) \<times> reader" where
  "ReadAll r =
     (case failure r of
        Some e \<Rightarrow> (Inl e, Reader [] (Some e))
      | None \<Rightarrow> (Inr (pending r), Reader [] None))"

text \<open>
  An \<open>io.Writer\<close> holds what was written to it and the error, if any, that writing to
  it reports. \<open>fmt.Fprintln\<close> writes its operand and a newline.
\<close>

datatype writer = Writer (written: bytes) (wfailure: "string option")

definition Fprintln :: "writer \<Rightarrow> string \<Rightarrow> writer \<times> string option" where
  "Fprintln w s =
     (case wfailure w of
        Some e \<Rightarrow> (w, Some e)
      | None \<Rightarrow> (Writer (written w @ s @ [CHR 0x0A]) None, None))"

subsection \<open>Package version\<close>

text \<open>
  The interface \<open>version.PluginInfo\<close>: the versions the plugin supports, in the order
  the plugin's author gave them, and the encoder of the reply to VERSION, which writes to
  the stream it is given and may fail.
\<close>

record PluginInfo =
  SupportedVersions :: "string list"
  Encode :: "writer \<Rightarrow> writer \<times> string option"

text \<open>
  Modelled from the spec: \<open>version.GreaterThanOrEqualTo\<close> (with the parser of version
  strings it rests on) is called by skel.go and is not among the sources. The spec
  (section 4.2) makes it the total order on version strings of the form
  major.minor.patch, and has a malformed version string fail instead of being compared
  as text. A version is three non-empty runs of decimal digits separated by dots; the
  order is that of the three numbers, the major number first.
\<close>

definition digit :: "char \<Rightarrow> nat option" where
  "digit = map_of
     [(CHR ''0'', 0), (CHR ''1'', 1), (CHR ''2'', 2), (CHR ''3'', 3), (CHR ''4'', 4),
      (CHR ''5'', 5), (CHR ''6'', 6), (CHR ''7'', 7), (CHR ''8'', 8), (CHR ''9'', 9)]"

fun atoi_acc :: "nat \<Rightarrow> string \<Rightarrow> nat option" where
  "atoi_acc n [] = Some n"
| "atoi_acc n (c # cs) =
     (case digit c of None \<Rightarrow> None | Some d \<Rightarrow> atoi_acc (10 * n + d) cs)"

definition Atoi :: "string \<Rightarrow> nat option" where
  "Atoi s = (if s = [] then None else atoi_acc 0 s)"

fun Split :: "string \<Rightarrow> char \<Rightarrow> string list" where
  "Split [] sep = [[]]"
| "Split (c # cs) sep =
     (if c = sep then [] # Split cs sep
      else (case Split cs sep of [] \<Rightarrow> [[c]] | p # ps \<Rightarrow> (c # p) # ps))"

definition ParseVersion :: "string \<Rightarrow> string + (nat \<times> nat \<times> nat)" where
  "ParseVersion v =
     (case Split v (CHR ''.'') of
        [a, b, c] \<Rightarrow>
          (case (Atoi a, Atoi b, Atoi c) of
             (Some major, Some minor, Some micro) \<Rightarrow> Inr (major, minor, micro)
           | _ \<Rightarrow> Inl (''invalid version '' @ v))
      | _ \<Rightarrow> Inl (''invalid version '' @ v))"

definition GreaterThanOrEqualTo :: "string \<Rightarrow> string \<Rightarrow> string + bool" where
  "GreaterThanOrEqualTo version otherVersion =
     (case ParseVersion version of
        Inl e \<Rightarrow> Inl e
      | Inr (firstMajor, firstMinor, firstMicro) \<Rightarrow>
          (case ParseVersion otherVersion of
             Inl e \<Rightarrow> Inl e
           | Inr (secondMajor, secondMinor, secondMicro) \<Rightarrow>
               Inr (firstMajor > secondMajor
                    \<or> (firstMajor = secondMajor
                        \<and> (firstMinor > secondMinor
                            \<or> (firstMinor = secondMinor \<and> firstMicro \<ge> secondMicro))))))"

subsection \<open>The request and the dispatcher\<close>

record CmdArgs =
  ContainerID :: string
  Netns :: string
  IfName :: string
  Args :: string
  Path :: string
  StdinData :: bytes

text \<open>
  The struct \<open>dispatcher\<close>. \<open>Getenv\<close> is the lookup function it holds; the three
  streams are held with their state, and a method that reads, writes or replaces one
  returns the dispatcher updated. \<open>ConfVersionDecoder\<close> stands for the method
  \<open>Decode\<close> of that field (an error text or the declared version) and
  \<open>VersionReconciler\<close> for the method \<open>Check\<close> of that one (\<open>None\<close> when the
  version is compatible, otherwise the \<open>Details()\<close> of the incompatibility); the two
  types belong to package version and their methods are not among the sources.
\<close>

record dispatcher =
  Getenv :: "string \<Rightarrow> string"
  Stdin :: reader
  Stdout :: writer
  Stderr :: writer
  ConfVersionDecoder :: "bytes \<Rightarrow> string + string"
  VersionReconciler :: "string \<Rightarrow> PluginInfo \<Rightarrow> string option"

text \<open>
  A handler (\<open>cmdAdd\<close>, \<open>cmdCheck\<close>, \<open>cmdDel\<close>) is a callback supplied by the plugin.
  It may do anything to the plugin's own state \<open>'h\<close>, of which skel.go knows nothing,
  and returns an \<open>error\<close>.
\<close>

type_synonym 'h handler = "CmdArgs \<Rightarrow> 'h \<Rightarrow> go_error option \<times> 'h"

subsection \<open>getCmdArgsFromEnv\<close>

text \<open>
  The six local string variables of \<open>getCmdArgsFromEnv\<close>; the table \<open>vars\<close> holds a
  pointer to one of them in each row. All start as the empty string.
\<close>

datatype local_var = V_cmd | V_contID | V_netns | V_ifName | V_args | V_path

type_synonym locals = "local_var \<Rightarrow> string"

type_synonym reqForCmdEntry = "string \<rightharpoonup> bool"

text \<open>Indexing a Go map with a key it does not hold gives the zero value, \<open>false\<close>.\<close>

definition index_map :: "reqForCmdEntry \<Rightarrow> string \<Rightarrow> bool" where
  "index_map m k = (case m k of Some b \<Rightarrow> b | None \<Rightarrow> False)"

definition vars :: "(string \<times> local_var \<times> reqForCmdEntry) list" where
  "vars =
     [(''CNI_COMMAND'', V_cmd,
         [''ADD'' \<mapsto> True, ''CHECK'' \<mapsto> True, ''DEL'' \<mapsto> True]),
      (''CNI_CONTAINERID'', V_contID,
         [''ADD'' \<mapsto> True, ''CHECK'' \<mapsto> True, ''DEL'' \<mapsto> True]),
      (''CNI_NETNS'', V_netns,
         [''ADD'' \<mapsto> True, ''CHECK'' \<mapsto> True, ''DEL'' \<mapsto> False]),
      (''CNI_IFNAME'', V_ifName,
         [''ADD'' \<mapsto> True, ''CHECK'' \<mapsto> True, ''DEL'' \<mapsto> True]),
      (''CNI_ARGS'', V_args,
         [''ADD'' \<mapsto> False, ''CHECK'' \<mapsto> False, ''DEL'' \<mapsto> False]),
      (''CNI_PATH'', V_path,
         [''ADD'' \<mapsto> True, ''CHECK'' \<mapsto> True, ''DEL'' \<mapsto> True])]"

text \<open>
  The loop over \<open>vars\<close>: each row stores the value of its variable through the row's
  pointer and, when that value is empty, appends the name to \<open>argsMissing\<close> if the row
  requires it for the command read so far or if the row is that of CNI_COMMAND.
\<close>

fun scan_vars ::
  "(string \<Rightarrow> string) \<Rightarrow> (string \<times> local_var \<times> reqForCmdEntry) list
    \<Rightarrow> locals \<times> string list \<Rightarrow> locals \<times> string list" where
  "scan_vars getenv [] st = st"
| "scan_vars getenv ((name, val, reqForCmd) # vs) (ls, argsMissing) =
     (let ls' = ls(val := getenv name) in
      scan_vars getenv vs
        (ls',
         if ls' val = []
         then (if index_map reqForCmd (ls' V_cmd) \<or> name = ''CNI_COMMAND''
               then argsMissing @ [name] else argsMissing)
         else argsMissing))"

fun Join :: "string list \<Rightarrow> string \<Rightarrow> string" where
  "Join [] sep = []"
| "Join [x] sep = x"
| "Join (x # y # ys) sep = x @ sep @ Join (y # ys) sep"

definition getCmdArgsFromEnv ::
  "dispatcher \<Rightarrow> (Error + string \<times> CmdArgs) \<times> dispatcher" where
  "getCmdArgsFromEnv t =
     (case scan_vars (Getenv t) vars (\<lambda>_. [], []) of
        (ls, argsMissing) \<Rightarrow>
          if length argsMissing > 0
          then (Inl (NewError ErrMissingEnvironmentVariables
                       (''required env variables ['' @ Join argsMissing '','' @ ''] missing'')
                       []),
                t)
          else
            (let t1 = (if ls V_cmd = ''VERSION'' then t\<lparr>Stdin := NewReader []\<rparr> else t)
             in case ReadAll (Stdin t1) of
                  (Inl err, r) \<Rightarrow>
                    (Inl (NewError ErrFailedIO (''error reading from stdin: '' @ err) []),
                     t1\<lparr>Stdin := r\<rparr>)
                | (Inr stdinData, r) \<Rightarrow>
                    (Inr (ls V_cmd,
                          \<lparr>ContainerID = ls V_contID, Netns = ls V_netns,
                           IfName = ls V_ifName, Args = ls V_args, Path = ls V_path,
                           StdinData = stdinData\<rparr>),
                     t1\<lparr>Stdin := r\<rparr>)))"

subsection \<open>checkVersionAndCall\<close>

definition checkVersionAndCall ::
  "dispatcher \<Rightarrow> CmdArgs \<Rightarrow> PluginInfo \<Rightarrow> 'h handler \<Rightarrow> 'h \<Rightarrow> Error option \<times> 'h" where
  "checkVersionAndCall t cmdArgs pluginVersionInfo toCall h =
     (case ConfVersionDecoder t (StdinData cmdArgs) of
        Inl err \<Rightarrow> (Some (NewError ErrFailedDecode err []), h)
      | Inr configVersion \<Rightarrow>
          (case VersionReconciler t configVersion pluginVersionInfo of
             Some verErr \<Rightarrow>
               (Some (NewError ErrIncompatibleCNIVersion ''incompatible CNI versions'' verErr), h)
           | None \<Rightarrow>
               (case toCall cmdArgs h of
                  (None, h') \<Rightarrow> (None, h')
                | (Some (TypedError e), h') \<Rightarrow> (e, h')
                | (Some (OtherError msg), h') \<Rightarrow>
                    (Some (NewError ErrFailedPluginCall msg []), h'))))"

subsection \<open>validateConfig\<close>

text \<open>
  \<open>json.Unmarshal\<close> belongs to Go's library, not to this repository. It is a parameter
  of the model: given the bytes, it returns the struct it has filled in (here the one
  field \<open>Name\<close>, empty unless the document set it) and the error it reports, of which
  the library has two kinds for a struct target: a \<open>SyntaxError\<close> when the bytes are
  not a JSON text, and an \<open>UnmarshalTypeError\<close> when they are one whose value does not
  fit the struct.
\<close>

datatype json_error = SyntaxError string | UnmarshalTypeError string

fun json_error_text :: "json_error \<Rightarrow> string" where
  "json_error_text (SyntaxError s) = s"
| "json_error_text (UnmarshalTypeError s) = s"

record conf =
  Name :: string

type_synonym unmarshal = "bytes \<Rightarrow> conf \<times> json_error option"

definition validateConfig :: "unmarshal \<Rightarrow> bytes \<Rightarrow> Error option" where
  "validateConfig json_Unmarshal jsonBytes =
     (case json_Unmarshal jsonBytes of
        (c, Some err) \<Rightarrow>
          Some (NewError ErrFailedDecode
                  (''error unmarshall network config: '' @ json_error_text err) [])
      | (c, None) \<Rightarrow>
          if Name c = [] then Some (NewError ErrInvalidNetworkConfig ''missing network name'' [])
          else None)"

subsection \<open>pluginMain\<close>

text \<open>
  The loop of the CHECK case over the plugin's supported versions, in their given order.
\<close>

fun check_supported ::
  "dispatcher \<Rightarrow> CmdArgs \<Rightarrow> PluginInfo \<Rightarrow> 'h handler \<Rightarrow> string \<Rightarrow> string list \<Rightarrow> 'h
    \<Rightarrow> Error option \<times> 'h" where
  "check_supported t cmdArgs versionInfo cmdCheck configVersion [] h =
     (Some (NewError ErrIncompatibleCNIVersion ''plugin version does not allow CHECK'' []), h)"
| "check_supported t cmdArgs versionInfo cmdCheck configVersion (pluginVersion # rest) h =
     (case GreaterThanOrEqualTo pluginVersion configVersion of
        Inl err \<Rightarrow> (Some (NewError ErrFailedDecode err []), h)
      | Inr gtet \<Rightarrow>
          if gtet then checkVersionAndCall t cmdArgs versionInfo cmdCheck h
          else check_supported t cmdArgs versionInfo cmdCheck configVersion rest h)"

definition cmd_check ::
  "dispatcher \<Rightarrow> CmdArgs \<Rightarrow> PluginInfo \<Rightarrow> 'h handler \<Rightarrow> 'h \<Rightarrow> Error option \<times> 'h" where
  "cmd_check t cmdArgs versionInfo cmdCheck h =
     (case ConfVersionDecoder t (StdinData cmdArgs) of
        Inl err \<Rightarrow> (Some (NewError ErrFailedDecode err []), h)
      | Inr configVersion \<Rightarrow>
          (case GreaterThanOrEqualTo configVersion ''0.4.0'' of
             Inl err \<Rightarrow> (Some (NewError ErrFailedDecode err []), h)
           | Inr gtet \<Rightarrow>
               if \<not> gtet
               then (Some (NewError ErrIncompatibleCNIVersion
                             ''config version does not allow CHECK'' []), h)
               else check_supported t cmdArgs versionInfo cmdCheck configVersion
                      (SupportedVersions versionInfo) h))"

definition pluginMain ::
  "unmarshal \<Rightarrow> dispatcher \<Rightarrow> 'h handler \<Rightarrow> 'h handler \<Rightarrow> 'h handler \<Rightarrow> PluginInfo \<Rightarrow> string
    \<Rightarrow> 'h \<Rightarrow> Error option \<times> dispatcher \<times> 'h" where
  "pluginMain json_Unmarshal t cmdAdd cmdCheck cmdDel versionInfo about h =
     (case getCmdArgsFromEnv t of
        (Inl err, t1) \<Rightarrow>
          if Code err = ErrMissingEnvironmentVariables \<and> Getenv t1 ''CNI_COMMAND'' = []
             \<and> about \<noteq> []
          then (None, t1\<lparr>Stderr := fst (Fprintln (Stderr t1) about)\<rparr>, h)
          else (Some err, t1, h)
      | (Inr (cmd, cmdArgs), t1) \<Rightarrow>
          (case (if cmd \<noteq> ''VERSION'' then validateConfig json_Unmarshal (StdinData cmdArgs)
                 else None) of
             Some err \<Rightarrow> (Some err, t1, h)
           | None \<Rightarrow>
               if cmd = ''ADD''
               then (case checkVersionAndCall t1 cmdArgs versionInfo cmdAdd h of
                       (err, h') \<Rightarrow> (err, t1, h'))
               else if cmd = ''CHECK''
               then (case cmd_check t1 cmdArgs versionInfo cmdCheck h of
                       (err, h') \<Rightarrow> (err, t1, h'))
               else if cmd = ''DEL''
               then (case checkVersionAndCall t1 cmdArgs versionInfo cmdDel h of
                       (err, h') \<Rightarrow> (err, t1, h'))
               else if cmd = ''VERSION''
               then (case Encode versionInfo (Stdout t1) of
                       (w, Some err) \<Rightarrow>
                         (Some (NewError ErrFailedEncode err []), t1\<lparr>Stdout := w\<rparr>, h)
                     | (w, None) \<Rightarrow> (None, t1\<lparr>Stdout := w\<rparr>, h))
               else (Some (NewError ErrUnknownCommand (''unknown CNI_COMMAND: '' @ cmd) []),
                     t1, h)))"

section \<open>The requirement table of the specification\<close>

text \<open>
  The table of section 4.3 of the specification, read by columns: the parameters an
  operation requires, in the order of the table's rows. ADD and CHECK require all but
  CNI_ARGS; DEL does not require CNI_NETNS either; in the last column (no command) the
  command itself is what is missing.
\<close>

definition required_params :: "string \<Rightarrow> string list" where
  "required_params op =
     (if op = ''ADD'' \<or> op = ''CHECK''
      then [''CNI_COMMAND'', ''CNI_CONTAINERID'', ''CNI_NETNS'', ''CNI_IFNAME'', ''CNI_PATH'']
      else if op = ''DEL''
      then [''CNI_COMMAND'', ''CNI_CONTAINERID'', ''CNI_IFNAME'', ''CNI_PATH'']
      else [''CNI_COMMAND''])"

text \<open>The test the loop applies to a row, for the command \<open>c\<close>.\<close>

definition row_missing ::
  "(string \<Rightarrow> string) \<Rightarrow> string \<Rightarrow> string \<times> local_var \<times> reqForCmdEntry \<Rightarrow> bool" where
  "row_missing g c row =
     (case row of (name, val, reqForCmd) \<Rightarrow>
        g name = [] \<and> (index_map reqForCmd c \<or> name = ''CNI_COMMAND''))"

section \<open>Sample invocations\<close>

text \<open>
  \<open>os.Getenv\<close> on an environment given as a list of bindings: a variable that is not
  set reads as the empty string.
\<close>

definition env_of :: "(string \<times> string) list \<Rightarrow> string \<Rightarrow> string" where
  "env_of kvs name = (case map_of kvs name of Some v \<Rightarrow> v | None \<Rightarrow> [])"

definition full_env :: "string \<Rightarrow> (string \<times> string) list" where
  "full_env c =
     [(''CNI_COMMAND'', c), (''CNI_CONTAINERID'', ''c1''), (''CNI_NETNS'', ''/var/run/netns/n1''),
      (''CNI_IFNAME'', ''eth0''), (''CNI_PATH'', ''/opt/cni/bin'')]"

definition config_body :: "string \<Rightarrow> bytes" where
  \<open>config_body v = ''{"name":"net","cniVersion":"'' @ v @ ''"}''\<close>

definition sample_args :: "bytes \<Rightarrow> CmdArgs" where
  "sample_args b =
     \<lparr>ContainerID = ''c1'', Netns = ''/var/run/netns/n1'', IfName = ''eth0'', Args = [],
      Path = ''/opt/cni/bin'', StdinData = b\<rparr>"

text \<open>
  Stand-ins for the collaborators that are parameters of the model: a version decoder
  that finds the version \<open>v\<close>, a \<open>json.Unmarshal\<close> that answers with the struct \<open>c\<close>
  and the error \<open>e\<close>, a reconciler that accepts every version, and one that accepts
  the versions the plugin lists and no other.
\<close>

definition decode_const :: "string \<Rightarrow> bytes \<Rightarrow> string + string" where
  "decode_const v b = Inr v"

definition unmarshal_const :: "conf \<Rightarrow> json_error option \<Rightarrow> unmarshal" where
  "unmarshal_const c e b = (c, e)"

definition accept_all :: "string \<Rightarrow> PluginInfo \<Rightarrow> string option" where
  "accept_all v pluginInfo = None"

definition accept_listed :: "string \<Rightarrow> PluginInfo \<Rightarrow> string option" where
  "accept_listed v pluginInfo =
     (if v \<in> set (SupportedVersions pluginInfo) then None
      else Some (''config version is '' @ v @ '', plugin supports ['' @
                 Join (SupportedVersions pluginInfo) '', '' @ '']''))"

definition sample_dispatcher ::
  "(string \<times> string) list \<Rightarrow> reader \<Rightarrow> (bytes \<Rightarrow> string + string)
    \<Rightarrow> (string \<Rightarrow> PluginInfo \<Rightarrow> string option) \<Rightarrow> dispatcher" where
  "sample_dispatcher env input dec rec =
     \<lparr>Getenv = env_of env, Stdin = input, Stdout = Writer [] None, Stderr = Writer [] None,
      ConfVersionDecoder = dec, VersionReconciler = rec\<rparr>"

definition plugin_info :: "string list \<Rightarrow> PluginInfo" where
  "plugin_info vs =
     \<lparr>SupportedVersions = vs, Encode = (\<lambda>w. Fprintln w (Join vs '',''))\<rparr>"

text \<open>
  Handlers whose state counts the calls made to any of them: one that succeeds and one
  that returns the error it is given.
\<close>

definition handler_ok :: "nat handler" where
  "handler_ok a n = (None, Suc n)"

definition handler_fail :: "go_error \<Rightarrow> nat handler" where
  "handler_fail e a n = (Some e, Suc n)"

section \<open>Properties of request extraction\<close>

lemma scan_vars_locals:
  "fst (scan_vars g vars (\<lambda>_. [], [])) =
     (\<lambda>_. [])(V_cmd := g ''CNI_COMMAND'', V_contID := g ''CNI_CONTAINERID'',
        V_netns := g ''CNI_NETNS'', V_ifName := g ''CNI_IFNAME'',
        V_args := g ''CNI_ARGS'', V_path := g ''CNI_PATH'')"
  by (simp add: vars_def Let_def del: fun_upd_apply)

lemma scan_vars_snd:
  "\<forall>row \<in> set vs. fst (snd row) \<noteq> V_cmd \<Longrightarrow>
   snd (scan_vars g vs (ls, m)) = m @ map fst (filter (row_missing g (ls V_cmd)) vs)"
proof (induction vs arbitrary: ls m)
  case Nil
  then show ?case by simp
next
  case (Cons row vs)
  obtain name val req where row: "row = (name, val, req)" by (cases row)
  from Cons.prems have val: "val \<noteq> V_cmd" and rest: "\<forall>r \<in> set vs. fst (snd r) \<noteq> V_cmd"
    by (simp_all add: row)
  show ?case
    using val Cons.IH [OF rest] by (simp add: row Let_def row_missing_def)
qed

lemma rows_required:
  "map fst (filter (row_missing g c) vars) = filter (\<lambda>n. g n = []) (required_params c)"
proof -
  consider "c = ''ADD''" | "c = ''CHECK''" | "c = ''DEL''"
    | "c \<noteq> ''ADD''" "c \<noteq> ''CHECK''" "c \<noteq> ''DEL''" by blast
  then show ?thesis
  proof cases
    case 1
    then show ?thesis
      by (simp add: vars_def row_missing_def index_map_def required_params_def)
  next
    case 2
    then show ?thesis
      by (simp add: vars_def row_missing_def index_map_def required_params_def)
  next
    case 3
    then show ?thesis
      by (simp add: vars_def row_missing_def index_map_def required_params_def)
  next
    case 4
    then show ?thesis
      by (simp add: vars_def row_missing_def index_map_def required_params_def)
  qed
qed

lemma scan_vars_missing:
  "snd (scan_vars g vars (\<lambda>_. [], [])) =
     filter (\<lambda>n. g n = []) (required_params (g ''CNI_COMMAND''))"
proof -
  define rs where "rs = tl vars"
  define m0 where "m0 = snd (snd (hd vars))"
  have v: "vars = (''CNI_COMMAND'', V_cmd, m0) # rs"
    by (simp add: rs_def m0_def vars_def)
  have rs: "\<forall>row \<in> set rs. fst (snd row) \<noteq> V_cmd"
    by (simp add: rs_def vars_def)
  have "snd (scan_vars g vars (\<lambda>_. [], [])) =
          map fst (filter (row_missing g (g ''CNI_COMMAND'')) vars)"
    unfolding v by (simp add: Let_def row_missing_def scan_vars_snd [OF rs])
  then show ?thesis by (simp only: rows_required)
qed

lemma scan_vars_result:
  "scan_vars g vars (\<lambda>_. [], []) =
     ((\<lambda>_. [])(V_cmd := g ''CNI_COMMAND'', V_contID := g ''CNI_CONTAINERID'',
        V_netns := g ''CNI_NETNS'', V_ifName := g ''CNI_IFNAME'',
        V_args := g ''CNI_ARGS'', V_path := g ''CNI_PATH''),
      filter (\<lambda>n. g n = []) (required_params (g ''CNI_COMMAND'')))"
  using scan_vars_locals [of g] scan_vars_missing [of g]
  by (metis prod.collapse)

lemma getCmdArgsFromEnv_missing:
  assumes "filter (\<lambda>n. Getenv t n = []) (required_params (Getenv t ''CNI_COMMAND'')) = omitted"
    and "omitted \<noteq> []"
  shows "getCmdArgsFromEnv t =
     (Inl (NewError ErrMissingEnvironmentVariables
             (''required env variables ['' @ Join omitted '','' @ ''] missing'') []), t)"
  using assms by (simp add: getCmdArgsFromEnv_def scan_vars_result del: fun_upd_apply)

lemma getCmdArgsFromEnv_present:
  assumes "filter (\<lambda>n. Getenv t n = []) (required_params (Getenv t ''CNI_COMMAND'')) = []"
  shows "getCmdArgsFromEnv t =
     (let t1 = (if Getenv t ''CNI_COMMAND'' = ''VERSION'' then t\<lparr>Stdin := NewReader []\<rparr> else t)
      in case ReadAll (Stdin t1) of
           (Inl err, r) \<Rightarrow>
             (Inl (NewError ErrFailedIO (''error reading from stdin: '' @ err) []),
              t1\<lparr>Stdin := r\<rparr>)
         | (Inr stdinData, r) \<Rightarrow>
             (Inr (Getenv t ''CNI_COMMAND'',
                   \<lparr>ContainerID = Getenv t ''CNI_CONTAINERID'', Netns = Getenv t ''CNI_NETNS'',
                    IfName = Getenv t ''CNI_IFNAME'', Args = Getenv t ''CNI_ARGS'',
                    Path = Getenv t ''CNI_PATH'', StdinData = stdinData\<rparr>),
              t1\<lparr>Stdin := r\<rparr>))"
  using assms
  by (simp add: getCmdArgsFromEnv_def scan_vars_result Let_def split: prod.splits sum.splits)

lemma sample_extract:
  assumes "c \<noteq> []" and "c \<noteq> ''VERSION''"
  shows "getCmdArgsFromEnv (sample_dispatcher (full_env c) (NewReader b) dec rec) =
     (Inr (c, sample_args b), sample_dispatcher (full_env c) (Reader [] None) dec rec)"
proof -
  let ?t = "sample_dispatcher (full_env c) (NewReader b) dec rec"
  have "filter (\<lambda>n. Getenv ?t n = []) (required_params (Getenv ?t ''CNI_COMMAND'')) = []"
    using assms
    by (simp add: sample_dispatcher_def env_of_def full_env_def required_params_def)
  from getCmdArgsFromEnv_present [OF this] assms show ?thesis
    by (simp add: sample_dispatcher_def env_of_def full_env_def sample_args_def
        NewReader_def ReadAll_def)
qed

text \<open>
  C3. For ADD, CHECK and DEL, whatever required parameters are left empty, and for an
  empty command, extraction fails with the code for missing environment variables, and
  the message lists the names of exactly the omitted parameters of the requirement
  table, all of them, in the order of the table, separated by commas.
\<close>

theorem missing_parameters_all_named_in_table_order:
  assumes "Getenv t ''CNI_COMMAND'' \<in> {''ADD'', ''CHECK'', ''DEL'', []}"
    and "omitted = filter (\<lambda>n. Getenv t n = []) (required_params (Getenv t ''CNI_COMMAND''))"
    and "omitted \<noteq> []"
  shows "getCmdArgsFromEnv t =
     (Inl \<lparr>Code = ErrMissingEnvironmentVariables,
           Msg = ''required env variables ['' @ Join omitted '','' @ ''] missing'',
           Details = []\<rparr>, t)"
  using getCmdArgsFromEnv_missing [of t omitted] assms(2,3)
  by (simp add: NewError_def)

theorem missing_parameters_all_named_witness:
  "getCmdArgsFromEnv
     (sample_dispatcher [(''CNI_COMMAND'', ''ADD''), (''CNI_CONTAINERID'', ''c1''),
                         (''CNI_IFNAME'', ''eth0'')] (NewReader []) (decode_const []) accept_all) =
   (Inl \<lparr>Code = ErrMissingEnvironmentVariables,
         Msg = ''required env variables [CNI_NETNS,CNI_PATH] missing'', Details = []\<rparr>,
    sample_dispatcher [(''CNI_COMMAND'', ''ADD''), (''CNI_CONTAINERID'', ''c1''),
                       (''CNI_IFNAME'', ''eth0'')] (NewReader []) (decode_const []) accept_all)
   \<and> getCmdArgsFromEnv
     (sample_dispatcher [(''CNI_COMMAND'', ''DEL''), (''CNI_CONTAINERID'', ''c1'')]
        (NewReader []) (decode_const []) accept_all) =
   (Inl \<lparr>Code = ErrMissingEnvironmentVariables,
         Msg = ''required env variables [CNI_IFNAME,CNI_PATH] missing'', Details = []\<rparr>,
    sample_dispatcher [(''CNI_COMMAND'', ''DEL''), (''CNI_CONTAINERID'', ''c1'')]
        (NewReader []) (decode_const []) accept_all)"
  using missing_parameters_all_named_in_table_order
    [where t = "sample_dispatcher [(''CNI_COMMAND'', ''ADD''), (''CNI_CONTAINERID'', ''c1''),
                  (''CNI_IFNAME'', ''eth0'')] (NewReader []) (decode_const []) accept_all"
       and omitted = "[''CNI_NETNS'', ''CNI_PATH'']"]
    missing_parameters_all_named_in_table_order
    [where t = "sample_dispatcher [(''CNI_COMMAND'', ''DEL''), (''CNI_CONTAINERID'', ''c1'')]
                  (NewReader []) (decode_const []) accept_all"
       and omitted = "[''CNI_IFNAME'', ''CNI_PATH'']"]
  by (simp add: sample_dispatcher_def env_of_def required_params_def)

text \<open>
  C7. When the command is VERSION, extraction succeeds whatever the other variables
  hold, also when none of them is set; the body of the request is empty; and the stream
  the dispatcher was given is not read: it is replaced by an empty one before the read,
  so that the outcome is the same for every input stream, even one that fails.
\<close>

theorem version_reads_no_input:
  assumes "Getenv t ''CNI_COMMAND'' = ''VERSION''"
  shows "getCmdArgsFromEnv t =
     (Inr (''VERSION'',
           \<lparr>ContainerID = Getenv t ''CNI_CONTAINERID'', Netns = Getenv t ''CNI_NETNS'',
            IfName = Getenv t ''CNI_IFNAME'', Args = Getenv t ''CNI_ARGS'',
            Path = Getenv t ''CNI_PATH'', StdinData = []\<rparr>),
      t\<lparr>Stdin := Reader [] None\<rparr>)
     \<and> (\<forall>r. getCmdArgsFromEnv (t\<lparr>Stdin := r\<rparr>) = getCmdArgsFromEnv t)"
proof -
  have eq: "getCmdArgsFromEnv t' =
     (Inr (''VERSION'',
           \<lparr>ContainerID = Getenv t' ''CNI_CONTAINERID'', Netns = Getenv t' ''CNI_NETNS'',
            IfName = Getenv t' ''CNI_IFNAME'', Args = Getenv t' ''CNI_ARGS'',
            Path = Getenv t' ''CNI_PATH'', StdinData = []\<rparr>),
      t'\<lparr>Stdin := Reader [] None\<rparr>)"
    if "Getenv t' ''CNI_COMMAND'' = ''VERSION''" for t'
  proof -
    have "filter (\<lambda>n. Getenv t' n = []) (required_params (Getenv t' ''CNI_COMMAND'')) = []"
      using that by (simp add: required_params_def)
    from getCmdArgsFromEnv_present [OF this] that show ?thesis
      by (simp add: NewReader_def ReadAll_def)
  qed
  show ?thesis using assms by (simp add: eq)
qed

theorem version_reads_no_input_witness:
  "getCmdArgsFromEnv
     (sample_dispatcher [(''CNI_COMMAND'', ''VERSION'')] (Reader ''unread'' (Some ''broken pipe''))
        (decode_const []) accept_all) =
   (Inr (''VERSION'',
         \<lparr>ContainerID = [], Netns = [], IfName = [], Args = [], Path = [], StdinData = []\<rparr>),
    sample_dispatcher [(''CNI_COMMAND'', ''VERSION'')] (Reader [] None)
        (decode_const []) accept_all)"
  using version_reads_no_input
    [of "sample_dispatcher [(''CNI_COMMAND'', ''VERSION'')]
           (Reader ''unread'' (Some ''broken pipe'')) (decode_const []) accept_all"]
  by (simp add: sample_dispatcher_def env_of_def)

section \<open>Properties of the dispatcher\<close>

lemma pluginMain_extracted:
  assumes "getCmdArgsFromEnv t = (Inr (cmd, cmdArgs), t1)"
    and "cmd = ''VERSION'' \<or> validateConfig U (StdinData cmdArgs) = None"
  shows "pluginMain U t cmdAdd cmdCheck cmdDel vi about h =
     (if cmd = ''ADD''
      then (case checkVersionAndCall t1 cmdArgs vi cmdAdd h of (err, h') \<Rightarrow> (err, t1, h'))
      else if cmd = ''CHECK''
      then (case cmd_check t1 cmdArgs vi cmdCheck h of (err, h') \<Rightarrow> (err, t1, h'))
      else if cmd = ''DEL''
      then (case checkVersionAndCall t1 cmdArgs vi cmdDel h of (err, h') \<Rightarrow> (err, t1, h'))
      else if cmd = ''VERSION''
      then (case Encode vi (Stdout t1) of
              (w, Some err) \<Rightarrow> (Some (NewError ErrFailedEncode err []), t1\<lparr>Stdout := w\<rparr>, h)
            | (w, None) \<Rightarrow> (None, t1\<lparr>Stdout := w\<rparr>, h))
      else (Some (NewError ErrUnknownCommand (''unknown CNI_COMMAND: '' @ cmd) []), t1, h))"
  using assms by (auto simp add: pluginMain_def)

lemma pluginMain_invalid:
  assumes "getCmdArgsFromEnv t = (Inr (cmd, cmdArgs), t1)"
    and "cmd \<noteq> ''VERSION''"
    and "validateConfig U (StdinData cmdArgs) = Some err"
  shows "pluginMain U t cmdAdd cmdCheck cmdDel vi about h = (Some err, t1, h)"
  using assms by (simp add: pluginMain_def)

lemma check_supported_skip:
  assumes "\<forall>q \<in> set pre. GreaterThanOrEqualTo q v = Inr False"
  shows "check_supported t a vi c v (pre @ rest) h = check_supported t a vi c v rest h"
  using assms by (induction pre) simp_all

text \<open>
  C6. When CNI_COMMAND is empty and the caller gave a non-empty about string, the
  dispatcher writes the about string (and a newline) to the diagnostic stream and returns
  no error; the handlers' state and the other streams are as they were. When the about
  string is empty, the error of the extraction, missing environment variables naming
  CNI_COMMAND, is returned as it is.
\<close>

theorem no_command_prints_about:
  assumes "Getenv t ''CNI_COMMAND'' = []"
  shows "(about \<noteq> [] \<longrightarrow>
            pluginMain U t cmdAdd cmdCheck cmdDel vi about h =
              (None, t\<lparr>Stderr := fst (Fprintln (Stderr t) about)\<rparr>, h)
            \<and> (wfailure (Stderr t) = None \<longrightarrow>
                 written (fst (Fprintln (Stderr t) about)) =
                   written (Stderr t) @ about @ [CHR 0x0A]))
       \<and> (about = [] \<longrightarrow>
            pluginMain U t cmdAdd cmdCheck cmdDel vi about h =
              (Some \<lparr>Code = ErrMissingEnvironmentVariables,
                     Msg = ''required env variables [CNI_COMMAND] missing'',
                     Details = []\<rparr>, t, h)
            \<and> fst (pluginMain U t cmdAdd cmdCheck cmdDel vi about h) =
                (case fst (getCmdArgsFromEnv t) of Inl err \<Rightarrow> Some err | Inr _ \<Rightarrow> None))"
proof -
  have "filter (\<lambda>n. Getenv t n = []) (required_params (Getenv t ''CNI_COMMAND'')) =
          [''CNI_COMMAND'']"
    using assms by (simp add: required_params_def)
  from getCmdArgsFromEnv_missing [OF this]
  have ext: "getCmdArgsFromEnv t =
      (Inl (NewError ErrMissingEnvironmentVariables
              ''required env variables [CNI_COMMAND] missing'' []), t)"
    by simp
  show ?thesis
    using assms by (simp add: pluginMain_def ext NewError_def Fprintln_def)
qed

theorem no_command_prints_about_witness:
  "pluginMain (unmarshal_const \<lparr>Name = []\<rparr> None)
     (sample_dispatcher [] (NewReader []) (decode_const []) accept_all)
     handler_ok handler_ok handler_ok (plugin_info [''0.4.0'']) ''CNI plugin demo v1.0'' 0 =
   (None,
    (sample_dispatcher [] (NewReader []) (decode_const []) accept_all)
      \<lparr>Stderr := Writer (''CNI plugin demo v1.0'' @ [CHR 0x0A]) None\<rparr>, 0)
   \<and> pluginMain (unmarshal_const \<lparr>Name = []\<rparr> None)
     (sample_dispatcher [] (NewReader []) (decode_const []) accept_all)
     handler_ok handler_ok handler_ok (plugin_info [''0.4.0'']) [] 0 =
   (Some \<lparr>Code = ErrMissingEnvironmentVariables,
          Msg = ''required env variables [CNI_COMMAND] missing'', Details = []\<rparr>,
    sample_dispatcher [] (NewReader []) (decode_const []) accept_all, 0)"
  using no_command_prints_about
    [where t = "sample_dispatcher [] (NewReader []) (decode_const []) accept_all"
       and about = "''CNI plugin demo v1.0''" and U = "unmarshal_const \<lparr>Name = []\<rparr> None"
       and cmdAdd = handler_ok and cmdCheck = handler_ok and cmdDel = handler_ok
       and vi = "plugin_info [''0.4.0'']" and h = 0]
    no_command_prints_about
    [where t = "sample_dispatcher [] (NewReader []) (decode_const []) accept_all"
       and about = "[]" and U = "unmarshal_const \<lparr>Name = []\<rparr> None"
       and cmdAdd = handler_ok and cmdCheck = handler_ok and cmdDel = handler_ok
       and vi = "plugin_info [''0.4.0'']" and h = 0]
  by (simp add: sample_dispatcher_def env_of_def Fprintln_def)

text \<open>
  C4, as the code has it. When the version checks of \<open>checkVersionAndCall\<close> have
  passed and the handler is called: an error that is a \<open>*types.Error\<close> is returned as
  it is, with its code, message and details; any other error is wrapped once, in an
  error of code \<open>ErrFailedPluginCall\<close> whose message is the text of the original
  error and whose details are empty.
\<close>

theorem handler_error_passed_or_wrapped:
  assumes "ConfVersionDecoder t (StdinData cmdArgs) = Inr v"
    and "VersionReconciler t v vi = None"
  shows "(toCall cmdArgs h = (Some (TypedError (Some e)), h') \<longrightarrow>
            checkVersionAndCall t cmdArgs vi toCall h = (Some e, h'))
       \<and> (toCall cmdArgs h = (Some (OtherError msg), h') \<longrightarrow>
            checkVersionAndCall t cmdArgs vi toCall h =
              (Some \<lparr>Code = ErrFailedPluginCall, Msg = msg, Details = []\<rparr>, h'))"
  using assms by (simp add: checkVersionAndCall_def NewError_def)

theorem handler_error_passed_or_wrapped_witness:
  "checkVersionAndCall
     (sample_dispatcher (full_env ''ADD'') (Reader [] None) (decode_const ''0.4.0'') accept_listed)
     (sample_args (config_body ''0.4.0'')) (plugin_info [''0.3.0'', ''0.4.0''])
     (handler_fail (TypedError (Some \<lparr>Code = ErrInternal, Msg = ''no address'', Details = ''pool empty''\<rparr>))) 0 =
   (Some \<lparr>Code = ErrInternal, Msg = ''no address'', Details = ''pool empty''\<rparr>, 1)
   \<and> checkVersionAndCall
     (sample_dispatcher (full_env ''ADD'') (Reader [] None) (decode_const ''0.4.0'') accept_listed)
     (sample_args (config_body ''0.4.0'')) (plugin_info [''0.3.0'', ''0.4.0''])
     (handler_fail (OtherError ''boom'')) 0 =
   (Some \<lparr>Code = ErrFailedPluginCall, Msg = ''boom'', Details = []\<rparr>, 1)"
  using handler_error_passed_or_wrapped
    [where t = "sample_dispatcher (full_env ''ADD'') (Reader [] None) (decode_const ''0.4.0'') accept_listed"
       and cmdArgs = "sample_args (config_body ''0.4.0'')" and v = "''0.4.0''"
       and vi = "plugin_info [''0.3.0'', ''0.4.0'']"
       and toCall = "handler_fail (TypedError (Some \<lparr>Code = ErrInternal, Msg = ''no address'', Details = ''pool empty''\<rparr>))"
       and h = 0 and e = "\<lparr>Code = ErrInternal, Msg = ''no address'', Details = ''pool empty''\<rparr>"
       and h' = 1]
    handler_error_passed_or_wrapped
    [where t = "sample_dispatcher (full_env ''ADD'') (Reader [] None) (decode_const ''0.4.0'') accept_listed"
       and cmdArgs = "sample_args (config_body ''0.4.0'')" and v = "''0.4.0''"
       and vi = "plugin_info [''0.3.0'', ''0.4.0'']"
       and toCall = "handler_fail (OtherError ''boom'')" and h = 0 and msg = "''boom''"
       and h' = 1]
  by (simp add: sample_dispatcher_def decode_const_def accept_listed_def plugin_info_def
      handler_fail_def)

text \<open>
  C4, as the claim has it, fails: the text of a plain error of the handler is carried in
  the message of the \<open>ErrFailedPluginCall\<close> error, and its details are empty. Here the
  handler returns the plain error "boom".
\<close>

theorem handler_error_detail_counterexample:
  "map_option Details (fst (checkVersionAndCall
     (sample_dispatcher (full_env ''ADD'') (Reader [] None) (decode_const ''0.4.0'') accept_listed)
     (sample_args (config_body ''0.4.0'')) (plugin_info [''0.3.0'', ''0.4.0''])
     (handler_fail (OtherError ''boom'')) 0)) = Some []
   \<and> map_option Details (fst (checkVersionAndCall
     (sample_dispatcher (full_env ''ADD'') (Reader [] None) (decode_const ''0.4.0'') accept_listed)
     (sample_args (config_body ''0.4.0'')) (plugin_info [''0.3.0'', ''0.4.0''])
     (handler_fail (OtherError ''boom'')) 0)) \<noteq> Some ''boom''"
  by (simp add: checkVersionAndCall_def sample_dispatcher_def decode_const_def
      accept_listed_def plugin_info_def handler_fail_def NewError_def)

text \<open>
  C5, as the code has it. For every command but VERSION, once the request is extracted:
  if \<open>json.Unmarshal\<close> reports an error for the body, be it a syntax error or the
  type error of a JSON text that does not fit the configuration struct, the dispatcher
  fails with \<open>ErrFailedDecode\<close>, whatever the name field holds; if it reports none
  and the name is empty or absent, the dispatcher fails with
  \<open>ErrInvalidNetworkConfig\<close>.
\<close>

theorem config_decoded_then_name_checked:
  assumes "getCmdArgsFromEnv t = (Inr (cmd, cmdArgs), t1)"
    and "cmd \<noteq> ''VERSION''"
    and "U (StdinData cmdArgs) = (c, r)"
  shows "(r = Some e \<longrightarrow>
            pluginMain U t cmdAdd cmdCheck cmdDel vi about h =
              (Some \<lparr>Code = ErrFailedDecode,
                     Msg = ''error unmarshall network config: '' @ json_error_text e,
                     Details = []\<rparr>, t1, h))
       \<and> (r = None \<and> Name c = [] \<longrightarrow>
            pluginMain U t cmdAdd cmdCheck cmdDel vi about h =
              (Some \<lparr>Code = ErrInvalidNetworkConfig, Msg = ''missing network name'',
                     Details = []\<rparr>, t1, h))"
proof (intro conjI impI)
  assume "r = Some e"
  with assms(3) have "validateConfig U (StdinData cmdArgs) =
      Some (NewError ErrFailedDecode
              (''error unmarshall network config: '' @ json_error_text e) [])"
    by (simp add: validateConfig_def)
  from pluginMain_invalid [OF assms(1,2) this]
  show "pluginMain U t cmdAdd cmdCheck cmdDel vi about h =
      (Some \<lparr>Code = ErrFailedDecode,
             Msg = ''error unmarshall network config: '' @ json_error_text e,
             Details = []\<rparr>, t1, h)"
    by (simp add: NewError_def)
next
  assume "r = None \<and> Name c = []"
  with assms(3) have "validateConfig U (StdinData cmdArgs) =
      Some (NewError ErrInvalidNetworkConfig ''missing network name'' [])"
    by (simp add: validateConfig_def)
  from pluginMain_invalid [OF assms(1,2) this]
  show "pluginMain U t cmdAdd cmdCheck cmdDel vi about h =
      (Some \<lparr>Code = ErrInvalidNetworkConfig, Msg = ''missing network name'',
             Details = []\<rparr>, t1, h)"
    by (simp add: NewError_def)
qed

theorem config_decoded_then_name_checked_witness:
  \<open>pluginMain
     (unmarshal_const \<lparr>Name = ''net''\<rparr>
        (Some (UnmarshalTypeError
           ''json: cannot unmarshal number into Go struct field .name of type string'')))
     (sample_dispatcher (full_env ''DEL'') (NewReader ''{"name":"net","name":5}'')
        (decode_const ''0.4.0'') accept_listed)
     handler_ok handler_ok handler_ok (plugin_info [''0.4.0'']) [] 0 =
   (Some \<lparr>Code = ErrFailedDecode,
          Msg = ''error unmarshall network config: json: cannot unmarshal number into Go struct field .name of type string'',
          Details = []\<rparr>,
    sample_dispatcher (full_env ''DEL'') (Reader [] None) (decode_const ''0.4.0'') accept_listed, 0)
   \<and> pluginMain (unmarshal_const \<lparr>Name = []\<rparr> None)
     (sample_dispatcher (full_env ''DEL'') (NewReader ''{}'') (decode_const ''0.4.0'') accept_listed)
     handler_ok handler_ok handler_ok (plugin_info [''0.4.0'']) [] 0 =
   (Some \<lparr>Code = ErrInvalidNetworkConfig, Msg = ''missing network name'', Details = []\<rparr>,
    sample_dispatcher (full_env ''DEL'') (Reader [] None) (decode_const ''0.4.0'') accept_listed, 0)\<close>
proof -
  let ?e = "UnmarshalTypeError
    ''json: cannot unmarshal number into Go struct field .name of type string''"
  let ?U1 = "unmarshal_const \<lparr>Name = ''net''\<rparr> (Some ?e)"
  let ?U2 = "unmarshal_const \<lparr>Name = []\<rparr> None"
  have del: "''DEL'' \<noteq> ''VERSION''" by simp
  have ext: "getCmdArgsFromEnv (sample_dispatcher (full_env ''DEL'') (NewReader b) dec rec) =
      (Inr (''DEL'', sample_args b), sample_dispatcher (full_env ''DEL'') (Reader [] None) dec rec)"
    for b dec rec
    by (rule sample_extract) simp_all
  have u1: "?U1 (StdinData (sample_args b)) = (\<lparr>Name = ''net''\<rparr>, Some ?e)" for b
    by (simp add: unmarshal_const_def)
  have u2: "?U2 (StdinData (sample_args b)) = (\<lparr>Name = []\<rparr>, None)" for b
    by (simp add: unmarshal_const_def)
  note failed = config_decoded_then_name_checked
    [where U = ?U1 and cmdAdd = handler_ok and cmdCheck = handler_ok and cmdDel = handler_ok
       and h = "0::nat", OF ext del u1, THEN conjunct1, THEN mp, OF refl]
  note nameless = config_decoded_then_name_checked
    [where U = ?U2 and cmdAdd = handler_ok and cmdCheck = handler_ok and cmdDel = handler_ok
       and h = "0::nat", OF ext del u2, THEN conjunct2, THEN mp]
  show ?thesis
    using failed nameless by simp
qed

text \<open>
  C5, as the claim has it, fails: a body that is a JSON text, with no name field, is not
  always answered with \<open>ErrInvalidNetworkConfig\<close>. For the body \<open>[]\<close>, an array,
  \<open>json.Unmarshal\<close> reports that an array does not fit the struct, and the dispatcher
  fails with \<open>ErrFailedDecode\<close>. Here the command is ADD.
\<close>

theorem valid_json_decode_error_counterexample:
  "map_option Code (fst (pluginMain
     (unmarshal_const \<lparr>Name = []\<rparr>
        (Some (UnmarshalTypeError ''json: cannot unmarshal array into Go value of type struct'')))
     (sample_dispatcher (full_env ''ADD'') (NewReader ''[]'') (decode_const ''0.4.0'') accept_listed)
     handler_ok handler_ok handler_ok (plugin_info [''0.4.0'']) [] 0)) = Some ErrFailedDecode
   \<and> map_option Code (fst (pluginMain
     (unmarshal_const \<lparr>Name = []\<rparr>
        (Some (UnmarshalTypeError ''json: cannot unmarshal array into Go value of type struct'')))
     (sample_dispatcher (full_env ''ADD'') (NewReader ''[]'') (decode_const ''0.4.0'') accept_listed)
     handler_ok handler_ok handler_ok (plugin_info [''0.4.0'']) [] 0))
       \<noteq> Some ErrInvalidNetworkConfig"
  by (simp add: pluginMain_def sample_extract validateConfig_def unmarshal_const_def
      sample_args_def NewError_def)

text \<open>
  C8, as the code has it. When CNI_COMMAND holds a value that is none of ADD, CHECK, DEL
  and VERSION (and is not empty), no other variable is required; when moreover the
  input is read without error and the configuration passes \<open>validateConfig\<close>, the
  dispatcher fails with \<open>ErrUnknownCommand\<close> and a message that ends with the value.
\<close>

theorem unknown_command_rejected:
  assumes "Getenv t ''CNI_COMMAND'' = cmd"
    and "cmd \<notin> {[], ''ADD'', ''CHECK'', ''DEL'', ''VERSION''}"
    and "failure (Stdin t) = None"
    and "validateConfig U (pending (Stdin t)) = None"
  shows "pluginMain U t cmdAdd cmdCheck cmdDel vi about h =
     (Some \<lparr>Code = ErrUnknownCommand, Msg = ''unknown CNI_COMMAND: '' @ cmd, Details = []\<rparr>,
      t\<lparr>Stdin := Reader [] None\<rparr>, h)"
proof -
  have "filter (\<lambda>n. Getenv t n = []) (required_params (Getenv t ''CNI_COMMAND'')) = []"
    using assms(1,2) by (simp add: required_params_def)
  from getCmdArgsFromEnv_present [OF this] assms(1,2,3)
  have ext: "getCmdArgsFromEnv t =
      (Inr (cmd, \<lparr>ContainerID = Getenv t ''CNI_CONTAINERID'', Netns = Getenv t ''CNI_NETNS'',
                  IfName = Getenv t ''CNI_IFNAME'', Args = Getenv t ''CNI_ARGS'',
                  Path = Getenv t ''CNI_PATH'', StdinData = pending (Stdin t)\<rparr>),
       t\<lparr>Stdin := Reader [] None\<rparr>)"
    by (simp add: ReadAll_def)
  have "pluginMain U t cmdAdd cmdCheck cmdDel vi about h =
      (Some (NewError ErrUnknownCommand (''unknown CNI_COMMAND: '' @ cmd) []),
       t\<lparr>Stdin := Reader [] None\<rparr>, h)"
    using pluginMain_extracted [OF ext, of U] assms(2,4) by simp
  then show ?thesis by (simp add: NewError_def)
qed

theorem unknown_command_rejected_witness:
  "pluginMain (unmarshal_const \<lparr>Name = ''net''\<rparr> None)
     (sample_dispatcher [(''CNI_COMMAND'', ''FROB'')] (NewReader (config_body ''0.4.0''))
        (decode_const ''0.4.0'') accept_listed)
     handler_ok handler_ok handler_ok (plugin_info [''0.4.0'']) [] 0 =
   (Some \<lparr>Code = ErrUnknownCommand, Msg = ''unknown CNI_COMMAND: FROB'', Details = []\<rparr>,
    sample_dispatcher [(''CNI_COMMAND'', ''FROB'')] (Reader [] None)
        (decode_const ''0.4.0'') accept_listed, 0)"
  using unknown_command_rejected
    [where t = "sample_dispatcher [(''CNI_COMMAND'', ''FROB'')] (NewReader (config_body ''0.4.0''))
                  (decode_const ''0.4.0'') accept_listed"
       and cmd = "''FROB''" and U = "unmarshal_const \<lparr>Name = ''net''\<rparr> None"
       and cmdAdd = handler_ok and cmdCheck = handler_ok and cmdDel = handler_ok
       and vi = "plugin_info [''0.4.0'']" and about = "[]" and h = 0]
  by (simp add: sample_dispatcher_def env_of_def NewReader_def validateConfig_def
      unmarshal_const_def)

text \<open>
  C8, as the claim has it, fails: a successful extraction is not enough. With
  CNI_COMMAND=FROB, no other variable set and an empty input, extraction succeeds, but the
  configuration is validated before the command is looked at; \<open>json.Unmarshal\<close>
  reports the end of the input and the dispatcher fails with \<open>ErrFailedDecode\<close>.
\<close>

theorem unknown_command_invalid_config_counterexample:
  "fst (getCmdArgsFromEnv
     (sample_dispatcher [(''CNI_COMMAND'', ''FROB'')] (NewReader [])
        (decode_const ''0.4.0'') accept_listed)) =
     Inr (''FROB'', \<lparr>ContainerID = [], Netns = [], IfName = [], Args = [], Path = [],
                     StdinData = []\<rparr>)
   \<and> fst (pluginMain
     (unmarshal_const \<lparr>Name = []\<rparr> (Some (SyntaxError ''unexpected end of JSON input'')))
     (sample_dispatcher [(''CNI_COMMAND'', ''FROB'')] (NewReader [])
        (decode_const ''0.4.0'') accept_listed)
     handler_ok handler_ok handler_ok (plugin_info [''0.4.0'']) [] 0) =
     Some \<lparr>Code = ErrFailedDecode,
           Msg = ''error unmarshall network config: unexpected end of JSON input'',
           Details = []\<rparr>"
proof -
  let ?t = "sample_dispatcher [(''CNI_COMMAND'', ''FROB'')] (NewReader [])
              (decode_const ''0.4.0'') accept_listed"
  have "filter (\<lambda>n. Getenv ?t n = []) (required_params (Getenv ?t ''CNI_COMMAND'')) = []"
    by (simp add: sample_dispatcher_def env_of_def required_params_def)
  from getCmdArgsFromEnv_present [OF this]
  have ext: "getCmdArgsFromEnv ?t =
      (Inr (''FROB'', \<lparr>ContainerID = [], Netns = [], IfName = [], Args = [], Path = [],
                       StdinData = []\<rparr>),
       sample_dispatcher [(''CNI_COMMAND'', ''FROB'')] (Reader [] None)
         (decode_const ''0.4.0'') accept_listed)"
    by (simp add: sample_dispatcher_def env_of_def NewReader_def ReadAll_def)
  show ?thesis
    by (simp add: pluginMain_def ext validateConfig_def unmarshal_const_def NewError_def)
qed

section \<open>Properties of the CHECK command\<close>

lemma pluginMain_check:
  assumes "getCmdArgsFromEnv t = (Inr (''CHECK'', cmdArgs), t1)"
    and "validateConfig U (StdinData cmdArgs) = None"
  shows "pluginMain U t cmdAdd cmdCheck cmdDel vi about h =
     (case cmd_check t1 cmdArgs vi cmdCheck h of (err, h') \<Rightarrow> (err, t1, h'))"
  using pluginMain_extracted [OF assms(1), of U] assms(2) by simp

lemma sample_versions:
  "GreaterThanOrEqualTo ''0.3.0'' ''0.4.0'' = Inr False"
  "GreaterThanOrEqualTo ''0.3.1'' ''0.4.0'' = Inr False"
  "GreaterThanOrEqualTo ''0.4.0'' ''0.4.0'' = Inr True"
  "GreaterThanOrEqualTo ''0.4.1'' ''0.4.0'' = Inr True"
  "GreaterThanOrEqualTo ''0.5.0'' ''0.4.0'' = Inr True"
  "GreaterThanOrEqualTo ''0.3.0'' ''0.4.1'' = Inr False"
  "GreaterThanOrEqualTo ''0.5.0'' ''0.4.1'' = Inr True"
  "GreaterThanOrEqualTo ''0.3.0'' ''0.5.0'' = Inr False"
  "GreaterThanOrEqualTo ''0.4.0'' ''0.5.0'' = Inr False"
  "ParseVersion ''latest'' = Inl ''invalid version latest''"
  by (simp_all add: GreaterThanOrEqualTo_def ParseVersion_def Atoi_def digit_def)

lemma sample_check:
  "getCmdArgsFromEnv (sample_dispatcher (full_env ''CHECK'') (NewReader b) dec rec) =
     (Inr (''CHECK'', sample_args b), sample_dispatcher (full_env ''CHECK'') (Reader [] None) dec rec)"
  by (rule sample_extract) simp_all

text \<open>
  C2. For CHECK, when the request is extracted, the configuration is valid and the
  version it declares is below the floor 0.4.0, the dispatcher fails with
  \<open>ErrIncompatibleCNIVersion\<close>, whatever versions the plugin supports and whatever
  the reconciler would say; no handler is called, the handlers' state being what it was.
\<close>

theorem check_below_floor_incompatible:
  assumes "getCmdArgsFromEnv t = (Inr (''CHECK'', cmdArgs), t1)"
    and "validateConfig U (StdinData cmdArgs) = None"
    and "ConfVersionDecoder t1 (StdinData cmdArgs) = Inr v"
    and "GreaterThanOrEqualTo v ''0.4.0'' = Inr False"
  shows "pluginMain U t cmdAdd cmdCheck cmdDel vi about h =
     (Some \<lparr>Code = ErrIncompatibleCNIVersion, Msg = ''config version does not allow CHECK'',
            Details = []\<rparr>, t1, h)"
  using pluginMain_check [OF assms(1,2)] assms(3,4)
  by (simp add: cmd_check_def NewError_def)

theorem check_below_floor_incompatible_witness:
  "pluginMain (unmarshal_const \<lparr>Name = ''net''\<rparr> None)
     (sample_dispatcher (full_env ''CHECK'') (NewReader (config_body ''0.3.0''))
        (decode_const ''0.3.0'') accept_listed)
     handler_ok handler_ok handler_ok (plugin_info [''0.3.0'', ''0.4.0'']) [] 0 =
   (Some \<lparr>Code = ErrIncompatibleCNIVersion, Msg = ''config version does not allow CHECK'',
          Details = []\<rparr>,
    sample_dispatcher (full_env ''CHECK'') (Reader [] None) (decode_const ''0.3.0'') accept_listed,
    0)"
proof -
  let ?t1 = "sample_dispatcher (full_env ''CHECK'') (Reader [] None)
               (decode_const ''0.3.0'') accept_listed"
  let ?U = "unmarshal_const \<lparr>Name = ''net''\<rparr> None"
  have val: "validateConfig ?U (StdinData (sample_args (config_body ''0.3.0''))) = None"
    by (simp add: validateConfig_def unmarshal_const_def)
  have dec: "ConfVersionDecoder ?t1 (StdinData (sample_args (config_body ''0.3.0''))) =
      Inr ''0.3.0''"
    by (simp add: sample_dispatcher_def decode_const_def)
  show ?thesis
    by (rule check_below_floor_incompatible [OF sample_check val dec sample_versions(1)])
qed

text \<open>
  C1, as the code has it. For CHECK with a valid configuration and the supported versions
  0.3.0 and 0.4.0: a declared version of 0.3.1 is below the floor 0.4.0 and fails with
  \<open>ErrIncompatibleCNIVersion\<close> before the supported versions are looked at; a
  declared version of 0.4.0 passes the floor, 0.4.0 is the first supported version that
  is not below it, and the dispatcher goes on to \<open>checkVersionAndCall\<close> with the
  check handler, which succeeds when the reconciler accepts the version and the handler
  returns no error; a declared version of 0.5.0 fails with
  \<open>ErrIncompatibleCNIVersion\<close>, no supported version reaching it.
\<close>

theorem check_supported_version_examples:
  assumes "getCmdArgsFromEnv t = (Inr (''CHECK'', cmdArgs), t1)"
    and "validateConfig U (StdinData cmdArgs) = None"
    and "ConfVersionDecoder t1 (StdinData cmdArgs) = Inr v"
    and "SupportedVersions vi = [''0.3.0'', ''0.4.0'']"
  shows "(v = ''0.3.1'' \<longrightarrow>
            pluginMain U t cmdAdd cmdCheck cmdDel vi about h =
              (Some \<lparr>Code = ErrIncompatibleCNIVersion,
                     Msg = ''config version does not allow CHECK'', Details = []\<rparr>, t1, h))
       \<and> (v = ''0.4.0'' \<longrightarrow>
            pluginMain U t cmdAdd cmdCheck cmdDel vi about h =
              (case checkVersionAndCall t1 cmdArgs vi cmdCheck h of (err, h') \<Rightarrow> (err, t1, h'))
            \<and> (VersionReconciler t1 v vi = None \<and> cmdCheck cmdArgs h = (None, h') \<longrightarrow>
                 pluginMain U t cmdAdd cmdCheck cmdDel vi about h = (None, t1, h')))
       \<and> (v = ''0.5.0'' \<longrightarrow>
            pluginMain U t cmdAdd cmdCheck cmdDel vi about h =
              (Some \<lparr>Code = ErrIncompatibleCNIVersion,
                     Msg = ''plugin version does not allow CHECK'', Details = []\<rparr>, t1, h))"
proof -
  have main: "pluginMain U t cmdAdd cmdCheck cmdDel vi about h =
      (case cmd_check t1 cmdArgs vi cmdCheck h of (err, h') \<Rightarrow> (err, t1, h'))"
    by (rule pluginMain_check [OF assms(1,2)])
  have low: "cmd_check t1 cmdArgs vi cmdCheck h =
      (Some \<lparr>Code = ErrIncompatibleCNIVersion,
             Msg = ''config version does not allow CHECK'', Details = []\<rparr>, h)"
    if "v = ''0.3.1''"
    using assms(3,4) that by (simp add: cmd_check_def sample_versions NewError_def)
  have found: "cmd_check t1 cmdArgs vi cmdCheck h = checkVersionAndCall t1 cmdArgs vi cmdCheck h"
    if "v = ''0.4.0''"
    using assms(3,4) that by (simp add: cmd_check_def sample_versions)
  have high: "cmd_check t1 cmdArgs vi cmdCheck h =
      (Some \<lparr>Code = ErrIncompatibleCNIVersion,
             Msg = ''plugin version does not allow CHECK'', Details = []\<rparr>, h)"
    if "v = ''0.5.0''"
    using assms(3,4) that by (simp add: cmd_check_def sample_versions NewError_def)
  have called: "checkVersionAndCall t1 cmdArgs vi cmdCheck h = (None, h')"
    if "VersionReconciler t1 v vi = None" and "cmdCheck cmdArgs h = (None, h')"
    using assms(3) that by (simp add: checkVersionAndCall_def)
  show ?thesis
  proof (intro conjI impI)
    assume "v = ''0.3.1''"
    then show "pluginMain U t cmdAdd cmdCheck cmdDel vi about h =
        (Some \<lparr>Code = ErrIncompatibleCNIVersion,
               Msg = ''config version does not allow CHECK'', Details = []\<rparr>, t1, h)"
      by (simp add: main low)
  next
    assume "v = ''0.4.0''"
    then show "pluginMain U t cmdAdd cmdCheck cmdDel vi about h =
        (case checkVersionAndCall t1 cmdArgs vi cmdCheck h of (err, h') \<Rightarrow> (err, t1, h'))"
      by (simp add: main found)
  next
    assume "v = ''0.4.0''"
      and "VersionReconciler t1 v vi = None \<and> cmdCheck cmdArgs h = (None, h')"
    then show "pluginMain U t cmdAdd cmdCheck cmdDel vi about h = (None, t1, h')"
      by (simp add: main found called)
  next
    assume "v = ''0.5.0''"
    then show "pluginMain U t cmdAdd cmdCheck cmdDel vi about h =
        (Some \<lparr>Code = ErrIncompatibleCNIVersion,
               Msg = ''plugin version does not allow CHECK'', Details = []\<rparr>, t1, h)"
      by (simp add: main high)
  qed
qed

theorem check_supported_version_examples_witness:
  "pluginMain (unmarshal_const \<lparr>Name = ''net''\<rparr> None)
     (sample_dispatcher (full_env ''CHECK'') (NewReader (config_body ''0.3.1''))
        (decode_const ''0.3.1'') accept_listed)
     handler_ok handler_ok handler_ok (plugin_info [''0.3.0'', ''0.4.0'']) [] 0 =
   (Some \<lparr>Code = ErrIncompatibleCNIVersion, Msg = ''config version does not allow CHECK'',
          Details = []\<rparr>,
    sample_dispatcher (full_env ''CHECK'') (Reader [] None) (decode_const ''0.3.1'') accept_listed,
    0)
   \<and> pluginMain (unmarshal_const \<lparr>Name = ''net''\<rparr> None)
     (sample_dispatcher (full_env ''CHECK'') (NewReader (config_body ''0.4.0''))
        (decode_const ''0.4.0'') accept_listed)
     handler_ok handler_ok handler_ok (plugin_info [''0.3.0'', ''0.4.0'']) [] 0 =
   (None,
    sample_dispatcher (full_env ''CHECK'') (Reader [] None) (decode_const ''0.4.0'') accept_listed,
    1)
   \<and> pluginMain (unmarshal_const \<lparr>Name = ''net''\<rparr> None)
     (sample_dispatcher (full_env ''CHECK'') (NewReader (config_body ''0.5.0''))
        (decode_const ''0.5.0'') accept_all)
     handler_ok handler_ok handler_ok (plugin_info [''0.3.0'', ''0.4.0'']) [] 0 =
   (Some \<lparr>Code = ErrIncompatibleCNIVersion, Msg = ''plugin version does not allow CHECK'',
          Details = []\<rparr>,
    sample_dispatcher (full_env ''CHECK'') (Reader [] None) (decode_const ''0.5.0'') accept_all,
    0)"
proof -
  let ?U = "unmarshal_const \<lparr>Name = ''net''\<rparr> None"
  let ?t3 = "sample_dispatcher (full_env ''CHECK'') (Reader [] None)
               (decode_const ''0.3.1'') accept_listed"
  let ?t4 = "sample_dispatcher (full_env ''CHECK'') (Reader [] None)
               (decode_const ''0.4.0'') accept_listed"
  let ?t5 = "sample_dispatcher (full_env ''CHECK'') (Reader [] None)
               (decode_const ''0.5.0'') accept_all"
  have val: "validateConfig ?U (StdinData (sample_args b)) = None" for b
    by (simp add: validateConfig_def unmarshal_const_def)
  have dec3: "ConfVersionDecoder ?t3 (StdinData (sample_args (config_body ''0.3.1''))) =
      Inr ''0.3.1''"
    by (simp add: sample_dispatcher_def decode_const_def)
  have dec4: "ConfVersionDecoder ?t4 (StdinData (sample_args (config_body ''0.4.0''))) =
      Inr ''0.4.0''"
    by (simp add: sample_dispatcher_def decode_const_def)
  have dec5: "ConfVersionDecoder ?t5 (StdinData (sample_args (config_body ''0.5.0''))) =
      Inr ''0.5.0''"
    by (simp add: sample_dispatcher_def decode_const_def)
  have sup: "SupportedVersions (plugin_info [''0.3.0'', ''0.4.0'']) = [''0.3.0'', ''0.4.0'']"
    by (simp add: plugin_info_def)
  have acc: "VersionReconciler ?t4 ''0.4.0'' (plugin_info [''0.3.0'', ''0.4.0'']) = None
      \<and> handler_ok (sample_args (config_body ''0.4.0'')) 0 = (None, 1)"
    by (simp add: sample_dispatcher_def accept_listed_def plugin_info_def handler_ok_def)
  note inst3 = check_supported_version_examples
    [where cmdCheck = handler_ok and h = "0::nat", OF sample_check val dec3 sup]
  note inst4 = check_supported_version_examples
    [where cmdCheck = handler_ok and h = "0::nat" and h' = "1::nat",
     OF sample_check val dec4 sup]
  note inst5 = check_supported_version_examples
    [where cmdCheck = handler_ok and h = "0::nat", OF sample_check val dec5 sup]
  show ?thesis
  proof (intro conjI)
    show "pluginMain ?U
        (sample_dispatcher (full_env ''CHECK'') (NewReader (config_body ''0.3.1''))
           (decode_const ''0.3.1'') accept_listed)
        handler_ok handler_ok handler_ok (plugin_info [''0.3.0'', ''0.4.0'']) [] 0 =
      (Some \<lparr>Code = ErrIncompatibleCNIVersion,
             Msg = ''config version does not allow CHECK'', Details = []\<rparr>, ?t3, 0)"
      by (rule inst3 [THEN conjunct1, THEN mp, OF refl])
    show "pluginMain ?U
        (sample_dispatcher (full_env ''CHECK'') (NewReader (config_body ''0.4.0''))
           (decode_const ''0.4.0'') accept_listed)
        handler_ok handler_ok handler_ok (plugin_info [''0.3.0'', ''0.4.0'']) [] 0 =
      (None, ?t4, 1)"
      by (rule inst4 [THEN conjunct2, THEN conjunct1, THEN mp, OF refl, THEN conjunct2,
            THEN mp, OF acc])
    show "pluginMain ?U
        (sample_dispatcher (full_env ''CHECK'') (NewReader (config_body ''0.5.0''))
           (decode_const ''0.5.0'') accept_all)
        handler_ok handler_ok handler_ok (plugin_info [''0.3.0'', ''0.4.0'']) [] 0 =
      (Some \<lparr>Code = ErrIncompatibleCNIVersion,
             Msg = ''plugin version does not allow CHECK'', Details = []\<rparr>, ?t5, 0)"
      by (rule inst5 [THEN conjunct2, THEN conjunct2, THEN mp, OF refl])
  qed
qed

text \<open>
  C1, as the claim has it, fails: with the supported versions 0.3.0 and 0.4.0 and the
  declared version 0.3.1, the dispatcher does not go on to the check handler. The
  declared version is below the floor 0.4.0, so the dispatcher fails with
  \<open>ErrIncompatibleCNIVersion\<close> and the handler is not called (the count of calls
  stays 0), here even with a reconciler that accepts every version.
\<close>

theorem check_declared_below_floor_counterexample:
  "fst (pluginMain (unmarshal_const \<lparr>Name = ''net''\<rparr> None)
     (sample_dispatcher (full_env ''CHECK'') (NewReader (config_body ''0.3.1''))
        (decode_const ''0.3.1'') accept_all)
     handler_ok handler_ok handler_ok (plugin_info [''0.3.0'', ''0.4.0'']) [] 0) =
     Some \<lparr>Code = ErrIncompatibleCNIVersion, Msg = ''config version does not allow CHECK'',
           Details = []\<rparr>
   \<and> snd (snd (pluginMain (unmarshal_const \<lparr>Name = ''net''\<rparr> None)
     (sample_dispatcher (full_env ''CHECK'') (NewReader (config_body ''0.3.1''))
        (decode_const ''0.3.1'') accept_all)
     handler_ok handler_ok handler_ok (plugin_info [''0.3.0'', ''0.4.0'']) [] 0)) = 0"
proof -
  let ?t1 = "sample_dispatcher (full_env ''CHECK'') (Reader [] None)
               (decode_const ''0.3.1'') accept_all"
  let ?vi = "plugin_info [''0.3.0'', ''0.4.0'']"
  have val: "validateConfig (unmarshal_const \<lparr>Name = ''net''\<rparr> None)
               (StdinData (sample_args (config_body ''0.3.1''))) = None"
    by (simp add: validateConfig_def unmarshal_const_def)
  have "cmd_check ?t1 (sample_args (config_body ''0.3.1'')) ?vi handler_ok 0 =
      (Some \<lparr>Code = ErrIncompatibleCNIVersion,
             Msg = ''config version does not allow CHECK'', Details = []\<rparr>, 0)"
    by (simp add: cmd_check_def sample_dispatcher_def decode_const_def sample_versions
        NewError_def)
  then show ?thesis
    by (simp add: pluginMain_check [OF sample_check val])
qed

text \<open>
  C9. For CHECK, when the declared version has passed the floor and a supported version
  that is not below it has been found, the dispatcher runs \<open>checkVersionAndCall\<close>,
  which decodes the version again and asks the reconciler. So the outcome is that of
  \<open>checkVersionAndCall\<close>: when the reconciler rejects the declared version, the
  dispatcher fails with \<open>ErrIncompatibleCNIVersion\<close> and the handlers' state is what
  it was, the check handler not being called; only when it accepts is the outcome that
  of the check handler.
\<close>

theorem check_handler_needs_general_reconciliation:
  assumes "getCmdArgsFromEnv t = (Inr (''CHECK'', cmdArgs), t1)"
    and "validateConfig U (StdinData cmdArgs) = None"
    and "ConfVersionDecoder t1 (StdinData cmdArgs) = Inr v"
    and "GreaterThanOrEqualTo v ''0.4.0'' = Inr True"
    and "SupportedVersions vi = pre @ p # rest"
    and "\<forall>q \<in> set pre. GreaterThanOrEqualTo q v = Inr False"
    and "GreaterThanOrEqualTo p v = Inr True"
  shows "pluginMain U t cmdAdd cmdCheck cmdDel vi about h =
           (case checkVersionAndCall t1 cmdArgs vi cmdCheck h of (err, h') \<Rightarrow> (err, t1, h'))
       \<and> (VersionReconciler t1 v vi = Some d \<longrightarrow>
            pluginMain U t cmdAdd cmdCheck cmdDel vi about h =
              (Some \<lparr>Code = ErrIncompatibleCNIVersion, Msg = ''incompatible CNI versions'',
                     Details = d\<rparr>, t1, h))
       \<and> (VersionReconciler t1 v vi = None \<longrightarrow>
            pluginMain U t cmdAdd cmdCheck cmdDel vi about h =
              (case cmdCheck cmdArgs h of
                 (None, h') \<Rightarrow> (None, t1, h')
               | (Some (TypedError e), h') \<Rightarrow> (e, t1, h')
               | (Some (OtherError msg), h') \<Rightarrow>
                   (Some \<lparr>Code = ErrFailedPluginCall, Msg = msg, Details = []\<rparr>, t1, h')))"
proof -
  have "cmd_check t1 cmdArgs vi cmdCheck h =
          check_supported t1 cmdArgs vi cmdCheck v (p # rest) h"
    using assms(3,4,5)
    by (simp add: cmd_check_def check_supported_skip [OF assms(6)])
  then have "cmd_check t1 cmdArgs vi cmdCheck h = checkVersionAndCall t1 cmdArgs vi cmdCheck h"
    using assms(7) by simp
  then have main: "pluginMain U t cmdAdd cmdCheck cmdDel vi about h =
      (case checkVersionAndCall t1 cmdArgs vi cmdCheck h of (err, h') \<Rightarrow> (err, t1, h'))"
    by (simp add: pluginMain_check [OF assms(1,2)])
  show ?thesis
    unfolding main using assms(3)
    by (simp add: checkVersionAndCall_def NewError_def
        split: prod.splits option.splits go_error.splits)
qed

theorem check_handler_needs_general_reconciliation_witness:
  "pluginMain (unmarshal_const \<lparr>Name = ''net''\<rparr> None)
     (sample_dispatcher (full_env ''CHECK'') (NewReader (config_body ''0.4.1''))
        (decode_const ''0.4.1'') accept_listed)
     handler_ok handler_ok handler_ok (plugin_info [''0.3.0'', ''0.5.0'']) [] 0 =
   (Some \<lparr>Code = ErrIncompatibleCNIVersion, Msg = ''incompatible CNI versions'',
          Details = ''config version is 0.4.1, plugin supports [0.3.0, 0.5.0]''\<rparr>,
    sample_dispatcher (full_env ''CHECK'') (Reader [] None) (decode_const ''0.4.1'') accept_listed,
    0)
   \<and> pluginMain (unmarshal_const \<lparr>Name = ''net''\<rparr> None)
     (sample_dispatcher (full_env ''CHECK'') (NewReader (config_body ''0.4.1''))
        (decode_const ''0.4.1'') accept_all)
     handler_ok handler_ok handler_ok (plugin_info [''0.3.0'', ''0.5.0'']) [] 0 =
   (None,
    sample_dispatcher (full_env ''CHECK'') (Reader [] None) (decode_const ''0.4.1'') accept_all,
    1)"
proof -
  let ?U = "unmarshal_const \<lparr>Name = ''net''\<rparr> None"
  let ?args = "sample_args (config_body ''0.4.1'')"
  let ?vi = "plugin_info [''0.3.0'', ''0.5.0'']"
  have val: "validateConfig ?U (StdinData ?args) = None"
    by (simp add: validateConfig_def unmarshal_const_def)
  have dec: "ConfVersionDecoder (sample_dispatcher env input (decode_const ''0.4.1'') rec)
               (StdinData ?args) = Inr ''0.4.1''" for env input rec
    by (simp add: sample_dispatcher_def decode_const_def)
  have sup: "SupportedVersions ?vi = [''0.3.0''] @ ''0.5.0'' # []"
    by (simp add: plugin_info_def)
  have pre: "\<forall>q \<in> set [''0.3.0'']. GreaterThanOrEqualTo q ''0.4.1'' = Inr False"
    by (simp add: sample_versions)
  have rej: "VersionReconciler
               (sample_dispatcher (full_env ''CHECK'') (Reader [] None)
                  (decode_const ''0.4.1'') accept_listed) ''0.4.1'' ?vi =
      Some ''config version is 0.4.1, plugin supports [0.3.0, 0.5.0]''"
    by (simp add: sample_dispatcher_def accept_listed_def plugin_info_def)
  have acc: "VersionReconciler
               (sample_dispatcher (full_env ''CHECK'') (Reader [] None)
                  (decode_const ''0.4.1'') accept_all) ''0.4.1'' ?vi = None"
    by (simp add: sample_dispatcher_def accept_all_def)
  note rejected = check_handler_needs_general_reconciliation
    [where cmdCheck = handler_ok and h = "0::nat",
     OF sample_check val dec sample_versions(4) sup pre sample_versions(7),
     THEN conjunct2, THEN conjunct1, THEN mp, OF rej]
  note accepted = check_handler_needs_general_reconciliation
    [where cmdCheck = handler_ok and h = "0::nat",
     OF sample_check val dec sample_versions(4) sup pre sample_versions(7),
     THEN conjunct2, THEN conjunct2, THEN mp, OF acc]
  show ?thesis
    using rejected accepted by (simp add: handler_ok_def)
qed

text \<open>
  C10. For CHECK, when the declared version has passed the floor and the search over the
  supported versions meets a version string that does not parse, before any supported
  version that is not below the declared one, the dispatcher fails with
  \<open>ErrFailedDecode\<close>; the entry is not skipped, whatever follows it in the list, and
  no handler is called.
\<close>

theorem check_malformed_supported_version_aborts:
  assumes "getCmdArgsFromEnv t = (Inr (''CHECK'', cmdArgs), t1)"
    and "validateConfig U (StdinData cmdArgs) = None"
    and "ConfVersionDecoder t1 (StdinData cmdArgs) = Inr v"
    and "GreaterThanOrEqualTo v ''0.4.0'' = Inr True"
    and "SupportedVersions vi = pre @ bad # rest"
    and "\<forall>q \<in> set pre. GreaterThanOrEqualTo q v = Inr False"
    and "ParseVersion bad = Inl e"
  shows "pluginMain U t cmdAdd cmdCheck cmdDel vi about h =
     (Some \<lparr>Code = ErrFailedDecode, Msg = e, Details = []\<rparr>, t1, h)"
proof -
  have bad: "GreaterThanOrEqualTo bad v = Inl e"
    using assms(7) by (simp add: GreaterThanOrEqualTo_def)
  have "cmd_check t1 cmdArgs vi cmdCheck h =
          check_supported t1 cmdArgs vi cmdCheck v (bad # rest) h"
    using assms(3,4,5)
    by (simp add: cmd_check_def check_supported_skip [OF assms(6)])
  then have "cmd_check t1 cmdArgs vi cmdCheck h = (Some (NewError ErrFailedDecode e []), h)"
    using bad by simp
  then show ?thesis
    by (simp add: pluginMain_check [OF assms(1,2)] NewError_def)
qed

theorem check_malformed_supported_version_aborts_witness:
  "pluginMain (unmarshal_const \<lparr>Name = ''net''\<rparr> None)
     (sample_dispatcher (full_env ''CHECK'') (NewReader (config_body ''0.4.0''))
        (decode_const ''0.4.0'') accept_listed)
     handler_ok handler_ok handler_ok (plugin_info [''0.3.0'', ''latest'', ''0.4.0'']) [] 0 =
   (Some \<lparr>Code = ErrFailedDecode, Msg = ''invalid version latest'', Details = []\<rparr>,
    sample_dispatcher (full_env ''CHECK'') (Reader [] None) (decode_const ''0.4.0'') accept_listed,
    0)"
proof -
  let ?t1 = "sample_dispatcher (full_env ''CHECK'') (Reader [] None)
               (decode_const ''0.4.0'') accept_listed"
  let ?U = "unmarshal_const \<lparr>Name = ''net''\<rparr> None"
  have val: "validateConfig ?U (StdinData (sample_args (config_body ''0.4.0''))) = None"
    by (simp add: validateConfig_def unmarshal_const_def)
  have dec: "ConfVersionDecoder ?t1 (StdinData (sample_args (config_body ''0.4.0''))) =
      Inr ''0.4.0''"
    by (simp add: sample_dispatcher_def decode_const_def)
  have sup: "SupportedVersions (plugin_info [''0.3.0'', ''latest'', ''0.4.0'']) =
      [''0.3.0''] @ ''latest'' # [''0.4.0'']"
    by (simp add: plugin_info_def)
  have pre: "\<forall>q \<in> set [''0.3.0'']. GreaterThanOrEqualTo q ''0.4.0'' = Inr False"
    by (simp add: sample_versions)
  show ?thesis
    by (rule check_malformed_supported_version_aborts
        [OF sample_check val dec sample_versions(3) sup pre sample_versions(10)])
qed

end
